theory Spec2Isabelle
  imports Main
begin

section \<open>Python values used by the handlers\<close>

text \<open>
  Strings are lists of characters; the non-ASCII literals of \<^verbatim>\<open>handlers.py\<close> are kept
  as their UTF-8 bytes. The handlers only concatenate, compare and strip strings, so the
  byte view and Python's code-point view agree on everything modelled here.
\<close>

text \<open>\<^verbatim>\<open>s.lstrip('/')\<close> and \<^verbatim>\<open>s.rstrip('/')\<close>: every leading (trailing) occurrence of
  the character is removed.\<close>

definition lstrip :: "char \<Rightarrow> string \<Rightarrow> string" where
  "lstrip c s = dropWhile (\<lambda>x. x = c) s"

definition rstrip :: "char \<Rightarrow> string \<Rightarrow> string" where
  "rstrip c s = rev (dropWhile (\<lambda>x. x = c) (rev s))"

text \<open>\<^verbatim>\<open>key.lower()\<close> on header names. Header names are ASCII tokens; on any Python
  string the result lies in one of the two exclusion sets below exactly when the ASCII
  lower-casing does (no non-ASCII character lower-cases to a letter of those names).\<close>

definition lower_char :: "char \<Rightarrow> char" where
  "lower_char c =
     (case map_of (zip ''ABCDEFGHIJKLMNOPQRSTUVWXYZ'' ''abcdefghijklmnopqrstuvwxyz'') c of
        Some l \<Rightarrow> l
      | None \<Rightarrow> c)"

definition lower :: "string \<Rightarrow> string" where
  "lower s = map lower_char s"

text \<open>\<^verbatim>\<open>str(n)\<close> for an integer, as the f-strings format a status code.\<close>

fun str_nat :: "nat \<Rightarrow> string" where
  "str_nat n =
     (if n < 10 then [''0123456789'' ! n]
      else str_nat (n div 10) @ [''0123456789'' ! (n mod 10)])"

declare str_nat.simps [simp del]

definition str_int :: "int \<Rightarrow> string" where
  "str_int i = (if i < 0 then CHR ''-'' # str_nat (nat (- i)) else str_nat (nat i))"

text \<open>A Python \<^verbatim>\<open>dict\<close>: keys are unique and keep the position of their first insertion;
  \<^verbatim>\<open>d[k] = v\<close> overwrites the value of a key that is already there.\<close>

fun dict_set :: "('k \<times> 'v) list \<Rightarrow> 'k \<Rightarrow> 'v \<Rightarrow> ('k \<times> 'v) list" where
  "dict_set [] k v = [(k, v)]"
| "dict_set ((k', v') # d) k v =
     (if k' = k then (k, v) # d else (k', v') # dict_set d k v)"

text \<open>\<^verbatim>\<open>d.get(k, default)\<close>.\<close>

definition dict_get :: "('k \<times> 'v) list \<Rightarrow> 'k \<Rightarrow> 'v \<Rightarrow> 'v" where
  "dict_get d k dflt = (case map_of d k of Some v \<Rightarrow> v | None \<Rightarrow> dflt)"

text \<open>The values a decoded JSON body can be, which are also the values the health report
  stores (\<^verbatim>\<open>str\<close>, \<^verbatim>\<open>bool\<close>, or whatever the Worker put under \<^verbatim>\<open>initialized\<close>).
  JSON numbers are kept as integers.\<close>

datatype pyval =
    PNone
  | PBool bool
  | PInt int
  | PStr string
  | PList "pyval list"
  | PDict "(string \<times> pyval) list"

fun type_name :: "pyval \<Rightarrow> string" where
  "type_name PNone = ''NoneType''"
| "type_name (PBool b) = ''bool''"
| "type_name (PInt i) = ''int''"
| "type_name (PStr s) = ''str''"
| "type_name (PList xs) = ''list''"
| "type_name (PDict d) = ''dict''"

text \<open>The message of the \<^verbatim>\<open>AttributeError\<close> raised by \<^verbatim>\<open>v.get\<close> on a value that has no
  such attribute.\<close>

definition no_attribute :: "pyval \<Rightarrow> string \<Rightarrow> string" where
  "no_attribute v a =
     [CHR 0x27] @ type_name v @ [CHR 0x27] @ '' object has no attribute '' @
     [CHR 0x27] @ a @ [CHR 0x27]"

section \<open>Exceptions\<close>

text \<open>
  An exception is tagged with the most specific of the classes the handlers distinguish and
  carries its message (\<^verbatim>\<open>str(e)\<close>). \<open>HTTPStatusError\<close> also carries
  \<^verbatim>\<open>e.response.status_code\<close> and \<^verbatim>\<open>e.response.text\<close>. \<open>HTTPError\<close> stands for the
  instances of \<^verbatim>\<open>httpx.HTTPError\<close> that are neither timeouts nor status errors (connection
  refused, DNS failure, protocol error, ...), \<open>Exception\<close> for every other instance of
  \<^verbatim>\<open>Exception\<close>. \<open>HTTPException\<close> is FastAPI's, with its status code and detail.
\<close>

datatype exn =
    TimeoutException string
  | HTTPStatusError string int string
  | HTTPError string
  | Exception string
  | HTTPException int string

datatype exn_class = TimeoutException_cls | HTTPStatusError_cls | HTTPError_cls | Exception_cls

text \<open>\<^verbatim>\<open>isinstance(e, C)\<close>, which is what an \<^verbatim>\<open>except C\<close> clause tests: in httpx both
  \<^verbatim>\<open>TimeoutException\<close> and \<^verbatim>\<open>HTTPStatusError\<close> derive from \<^verbatim>\<open>HTTPError\<close>.\<close>

fun isinstance :: "exn \<Rightarrow> exn_class \<Rightarrow> bool" where
  "isinstance (TimeoutException m) c =
     (c = TimeoutException_cls \<or> c = HTTPError_cls \<or> c = Exception_cls)"
| "isinstance (HTTPStatusError m s t) c =
     (c = HTTPStatusError_cls \<or> c = HTTPError_cls \<or> c = Exception_cls)"
| "isinstance (HTTPError m) c = (c = HTTPError_cls \<or> c = Exception_cls)"
| "isinstance (Exception m) c = (c = Exception_cls)"
| "isinstance (HTTPException s d) c = (c = Exception_cls)"

fun str_exn :: "exn \<Rightarrow> string" where
  "str_exn (TimeoutException m) = m"
| "str_exn (HTTPStatusError m s t) = m"
| "str_exn (HTTPError m) = m"
| "str_exn (Exception m) = m"
| "str_exn (HTTPException s d) = str_int s @ '': '' @ d"

text \<open>\<^verbatim>\<open>e.response.status_code\<close> and \<^verbatim>\<open>e.response.text\<close>; only a status error has a
  response, and the handlers read them only under \<^verbatim>\<open>except httpx.HTTPStatusError\<close>.\<close>

fun response_status_code :: "exn \<Rightarrow> int" where
  "response_status_code (HTTPStatusError m s t) = s"
| "response_status_code e = 0"

fun response_text :: "exn \<Rightarrow> string" where
  "response_text (HTTPStatusError m s t) = t"
| "response_text e = []"

section \<open>Configuration, requests, responses\<close>

text \<open>\<^verbatim>\<open>config.WORKER_URL\<close>: a string, possibly empty, or \<^verbatim>\<open>None\<close>.\<close>

record config =
  WORKER_URL :: "string option"

text \<open>Python truthiness of \<^verbatim>\<open>config.WORKER_URL\<close>, and \<^verbatim>\<open>config.WORKER_URL or ""\<close>.\<close>

fun truthy :: "string option \<Rightarrow> bool" where
  "truthy None = False"
| "truthy (Some s) = (s \<noteq> [])"

fun or_empty :: "string option \<Rightarrow> string" where
  "or_empty None = []"
| "or_empty (Some s) = s"

text \<open>The inbound request as the proxy handler reads it: \<^verbatim>\<open>request.method\<close>, the pairs
  \<^verbatim>\<open>request.headers.items()\<close> yields (repeated names are possible), the result of
  \<^verbatim>\<open>await request.body()\<close> (the bytes, empty when there is no body, or the exception it
  raises) and \<^verbatim>\<open>request.query_params\<close>.\<close>

record request =
  rq_method :: string
  rq_headers :: "(string \<times> string) list"
  rq_body :: "exn + string"
  rq_query_params :: "(string \<times> string) list"

text \<open>The arguments of one call of the HTTP client: \<^verbatim>\<open>content\<close> is \<open>None\<close> when no body
  is passed; \<^verbatim>\<open>timeout\<close> is the client's, in seconds.\<close>

record out_request =
  o_method :: string
  o_url :: string
  o_headers :: "(string \<times> string) list"
  o_content :: "string option"
  o_params :: "(string \<times> string) list"
  o_timeout :: nat

text \<open>The Worker's reply as the handlers read it: \<^verbatim>\<open>status_code\<close>, the pairs
  \<^verbatim>\<open>headers.items()\<close> yields, \<^verbatim>\<open>content\<close>, and the result of \<^verbatim>\<open>json()\<close> (the decoded
  value, or the message of the decoding error it raises).\<close>

record worker_response =
  r_status_code :: int
  r_headers :: "(string \<times> string) list"
  r_content :: string
  r_json :: "string + pyval"

text \<open>The \<^verbatim>\<open>Response\<close> the proxy returns.\<close>

record response =
  content :: string
  status_code :: int
  headers :: "(string \<times> string) list"

text \<open>What a handler does besides returning: calls of the HTTP client and log entries.\<close>

datatype log_level = WARNING | ERROR | EXCEPTION

datatype event = Client_request out_request | Log log_level string

fun is_client_request :: "event \<Rightarrow> bool" where
  "is_client_request (Client_request rq) = True"
| "is_client_request (Log l m) = False"

text \<open>The Worker and the network between: each call of the client either raises or
  returns a reply.\<close>

type_synonym client = "out_request \<Rightarrow> exn + worker_response"

section \<open>health\_check\<close>

definition health_failed_prefix :: string where
  "health_failed_prefix =
     ''Worker '' @ [CHR 0xE5, CHR 0x81, CHR 0xA5, CHR 0xE5, CHR 0xBA, CHR 0xB7, CHR 0xE6,
       CHR 0xA3, CHR 0x80, CHR 0xE6, CHR 0x9F, CHR 0xA5, CHR 0xE5, CHR 0xA4, CHR 0xB1,
       CHR 0xE8, CHR 0xB4, CHR 0xA5] @ '': ''"

text \<open>The call \<^verbatim>\<open>client.get(f"{config.WORKER_URL.rstrip('/')}/api/health")\<close> on a client
  made with \<^verbatim>\<open>timeout=5.0\<close>.\<close>

definition health_request :: "string \<Rightarrow> out_request" where
  "health_request u =
     \<lparr>o_method = ''GET'', o_url = rstrip CHR ''/'' u @ ''/api/health'', o_headers = [],
      o_content = None, o_params = [], o_timeout = 5\<rparr>"

text \<open>The body of the \<^verbatim>\<open>try\<close> block (lines 45 to 55): it returns the events, the report
  as far as it was updated, and the exception that ended the block, if any.\<close>

definition health_check_try ::
  "client \<Rightarrow> string \<Rightarrow> (string \<times> pyval) list \<Rightarrow>
   event list \<times> (string \<times> pyval) list \<times> exn option" where
  "health_check_try client u result =
     (case client (health_request u) of
        Inl e \<Rightarrow> ([Client_request (health_request u)], result, Some e)
      | Inr response \<Rightarrow>
          if r_status_code response = 200 then
            (case r_json response of
               Inl m \<Rightarrow> ([Client_request (health_request u)], result, Some (Exception m))
             | Inr worker_data \<Rightarrow>
                 (let result1 = dict_set result ''worker_status'' (PStr ''healthy'') in
                  case worker_data of
                    PDict d \<Rightarrow>
                      ([Client_request (health_request u)],
                       dict_set result1 ''worker_initialized''
                         (dict_get d ''initialized'' (PBool False)),
                       None)
                  | _ \<Rightarrow>
                      ([Client_request (health_request u)], result1,
                       Some (Exception (no_attribute worker_data ''get'')))))
          else
            ([Client_request (health_request u)],
             dict_set (dict_set result ''worker_status'' (PStr ''error''))
               ''worker_error'' (PStr (''HTTP '' @ str_int (r_status_code response))),
             None))"

definition health_check :: "config \<Rightarrow> client \<Rightarrow> event list \<times> (exn + (string \<times> pyval) list)" where
  "health_check cfg client =
     (let result =
            [(''status'', PStr ''ok''),
             (''worker_configured'', PBool (truthy (WORKER_URL cfg))),
             (''worker_url'', PStr (or_empty (WORKER_URL cfg)))]
      in
      if truthy (WORKER_URL cfg) then
        (case health_check_try client (the (WORKER_URL cfg)) result of
           (evs, result', None) \<Rightarrow> (evs, Inr result')
         | (evs, result', Some e) \<Rightarrow>
             if isinstance e Exception_cls then
               (evs @ [Log WARNING (health_failed_prefix @ str_exn e)],
                Inr (dict_set (dict_set result' ''worker_status'' (PStr ''error''))
                       ''worker_error'' (PStr (str_exn e))))
             else (evs, Inl e))
      else ([], Inr (dict_set result ''worker_status'' (PStr ''not_configured''))))"

section \<open>proxy\_worker\<close>

definition not_configured_detail :: string where
  "not_configured_detail =
     ''Worker URL '' @ [CHR 0xE6, CHR 0x9C, CHR 0xAA, CHR 0xE9, CHR 0x85, CHR 0x8D, CHR 0xE7,
       CHR 0xBD, CHR 0xAE, CHR 0xEF, CHR 0xBC, CHR 0x8C, CHR 0xE8, CHR 0xAF, CHR 0xB7,
       CHR 0xE5, CHR 0x85, CHR 0x88, CHR 0xE5, CHR 0x9C, CHR 0xA8, CHR 0xE6, CHR 0x8F,
       CHR 0x92, CHR 0xE4, CHR 0xBB, CHR 0xB6, CHR 0xE9, CHR 0x85, CHR 0x8D, CHR 0xE7,
       CHR 0xBD, CHR 0xAE, CHR 0xE4, CHR 0xB8, CHR 0xAD, CHR 0xE8, CHR 0xAE, CHR 0xBE,
       CHR 0xE7, CHR 0xBD, CHR 0xAE] @ '' WORKER_URL''"

definition timeout_prefix :: string where
  "timeout_prefix =
     ''Worker '' @ [CHR 0xE8, CHR 0xAF, CHR 0xB7, CHR 0xE6, CHR 0xB1, CHR 0x82, CHR 0xE8,
       CHR 0xB6, CHR 0x85, CHR 0xE6, CHR 0x97, CHR 0xB6] @ '': ''"

definition status_error_prefix :: string where
  "status_error_prefix =
     ''Worker '' @ [CHR 0xE8, CHR 0xBF, CHR 0x94, CHR 0xE5, CHR 0x9B, CHR 0x9E, CHR 0xE9,
       CHR 0x94, CHR 0x99, CHR 0xE8, CHR 0xAF, CHR 0xAF] @ '': ''"

definition request_failed_prefix :: string where
  "request_failed_prefix =
     ''Worker '' @ [CHR 0xE8, CHR 0xAF, CHR 0xB7, CHR 0xE6, CHR 0xB1, CHR 0x82, CHR 0xE5,
       CHR 0xA4, CHR 0xB1, CHR 0xE8, CHR 0xB4, CHR 0xA5] @ '': ''"

definition proxy_error_text :: string where
  "proxy_error_text =
     [CHR 0xE4, CHR 0xBB, CHR 0xA3, CHR 0xE7, CHR 0x90, CHR 0x86, CHR 0xE8, CHR 0xAF,
      CHR 0xB7, CHR 0xE6, CHR 0xB1, CHR 0x82, CHR 0xE5, CHR 0x87, CHR 0xBA, CHR 0xE9,
      CHR 0x94, CHR 0x99]"

text \<open>Line 87: \<^verbatim>\<open>f"{config.WORKER_URL.rstrip('/')}/{path.lstrip('/')}"\<close>.\<close>

definition target_url :: "string \<Rightarrow> string \<Rightarrow> string" where
  "target_url base path = rstrip CHR ''/'' base @ ''/'' @ lstrip CHR ''/'' path"

text \<open>The two dict comprehensions (lines 94 to 104 and 117 to 127): the pairs are visited
  in order and each one whose lower-cased name is not excluded is stored in the dict.\<close>

definition request_excluded :: "string set" where
  "request_excluded = {''host'', ''connection'', ''content-length'', ''accept-encoding''}"

definition response_excluded :: "string set" where
  "response_excluded =
     {''content-encoding'', ''content-length'', ''transfer-encoding'', ''connection''}"

definition filter_headers :: "string set \<Rightarrow> (string \<times> string) list \<Rightarrow> (string \<times> string) list" where
  "filter_headers excluded items =
     foldl (\<lambda>d (key, val). if lower key \<notin> excluded then dict_set d key val else d) [] items"

definition request_headers :: "(string \<times> string) list \<Rightarrow> (string \<times> string) list" where
  "request_headers items = filter_headers request_excluded items"

definition response_headers :: "(string \<times> string) list \<Rightarrow> (string \<times> string) list" where
  "response_headers items = filter_headers response_excluded items"

text \<open>The call \<^verbatim>\<open>client.request(method=..., url=..., headers=..., content=..., params=...)\<close>
  (lines 108 to 114) on a client made with \<^verbatim>\<open>timeout=30.0\<close>.\<close>

definition outbound_request :: "string \<Rightarrow> request \<Rightarrow> string \<Rightarrow> out_request" where
  "outbound_request worker_url request body =
     \<lparr>o_method = rq_method request, o_url = worker_url,
      o_headers = request_headers (rq_headers request),
      o_content = (if body \<noteq> [] then Some body else None),
      o_params = rq_query_params request, o_timeout = 30\<rparr>"

text \<open>The body of the \<^verbatim>\<open>try\<close> block (lines 90 to 134).\<close>

definition proxy_worker_try ::
  "client \<Rightarrow> string \<Rightarrow> request \<Rightarrow> event list \<times> (exn + response)" where
  "proxy_worker_try client worker_url request =
     (case rq_body request of
        Inl e \<Rightarrow> ([], Inl e)
      | Inr body \<Rightarrow>
          (case client (outbound_request worker_url request body) of
             Inl e \<Rightarrow> ([Client_request (outbound_request worker_url request body)], Inl e)
           | Inr resp \<Rightarrow>
               ([Client_request (outbound_request worker_url request body)],
                Inr \<lparr>content = r_content resp, status_code = r_status_code resp,
                     headers = response_headers (r_headers resp)\<rparr>)))"

text \<open>The \<^verbatim>\<open>except\<close> clauses (lines 136 to 159), tried in the order they are written.\<close>

definition proxy_worker_except :: "string \<Rightarrow> event list \<Rightarrow> exn \<Rightarrow> event list \<times> (exn + response)" where
  "proxy_worker_except worker_url evs e =
     (if isinstance e TimeoutException_cls then
        (evs @ [Log ERROR (timeout_prefix @ worker_url)],
         Inl (HTTPException 504 (timeout_prefix @ str_exn e)))
      else if isinstance e HTTPStatusError_cls then
        (evs @ [Log ERROR (status_error_prefix @ str_int (response_status_code e))],
         Inl (HTTPException (response_status_code e) (status_error_prefix @ response_text e)))
      else if isinstance e HTTPError_cls then
        (evs @ [Log ERROR (request_failed_prefix @ str_exn e)],
         Inl (HTTPException 502 (request_failed_prefix @ str_exn e)))
      else if isinstance e Exception_cls then
        (evs @ [Log EXCEPTION proxy_error_text],
         Inl (HTTPException 500 (proxy_error_text @ '': '' @ str_exn e)))
      else (evs, Inl e))"

definition proxy_worker ::
  "config \<Rightarrow> client \<Rightarrow> string \<Rightarrow> request \<Rightarrow> event list \<times> (exn + response)" where
  "proxy_worker cfg client path request =
     (if \<not> truthy (WORKER_URL cfg) then ([], Inl (HTTPException 400 not_configured_detail))
      else
        (let worker_url = target_url (the (WORKER_URL cfg)) path in
         case proxy_worker_try client worker_url request of
           (evs, Inr r) \<Rightarrow> (evs, Inr r)
         | (evs, Inl e) \<Rightarrow> proxy_worker_except worker_url evs e))"

section \<open>The specification's wording, for comparison\<close>

text \<open>
  The join of base URL and path as the specification words it: exactly one trailing slash
  is taken from the base and exactly one leading slash from the path (none when there is
  none).
\<close>

definition strip_one_trailing :: "char \<Rightarrow> string \<Rightarrow> string" where
  "strip_one_trailing c s = (if s \<noteq> [] \<and> last s = c then butlast s else s)"

definition strip_one_leading :: "char \<Rightarrow> string \<Rightarrow> string" where
  "strip_one_leading c s = (case s of [] \<Rightarrow> [] | x # xs \<Rightarrow> if x = c then xs else s)"

definition spec_target_url :: "string \<Rightarrow> string \<Rightarrow> string" where
  "spec_target_url base path =
     strip_one_trailing CHR ''/'' base @ ''/'' @ strip_one_leading CHR ''/'' path"

text \<open>
  Header filtering as the specification words it: the headers are a sequence in which a
  name may repeat, and every entry whose name is not excluded passes through, repeated names
  included.
\<close>

definition spec_filter_headers :: "string set \<Rightarrow> (string \<times> string) list \<Rightarrow> (string \<times> string) list" where
  "spec_filter_headers excluded items = filter (\<lambda>(key, val). lower key \<notin> excluded) items"

section \<open>Basic facts\<close>

text \<open>
  One step of a header comprehension, named for the proofs below.
\<close>

abbreviation header_step :: "string set \<Rightarrow> (string \<times> string) list \<Rightarrow> string \<times> string \<Rightarrow> (string \<times> string) list" where
  "header_step excluded \<equiv> (\<lambda>d (key, val). if lower key \<notin> excluded then dict_set d key val else d)"

lemma isinstance_Exception: "isinstance e Exception_cls"
  by (cases e) simp_all

lemma health_check_returns: "\<exists>report. snd (health_check cfg client) = Inr report"
  by (auto simp: health_check_def Let_def isinstance_Exception split: prod.splits option.splits)

subsection \<open>Stripping slashes\<close>

lemma lstrip_replicate:
  assumes "p = [] \<or> hd p \<noteq> c"
  shows "lstrip c (replicate m c @ p) = p"
proof -
  have "dropWhile (\<lambda>x. x = c) (replicate m c @ p) = dropWhile (\<lambda>x. x = c) p"
    by (rule dropWhile_append2) simp
  also from assms have "\<dots> = p" by (cases p) auto
  finally show ?thesis by (simp add: lstrip_def)
qed

lemma rstrip_replicate:
  assumes "b = [] \<or> last b \<noteq> c"
  shows "rstrip c (b @ replicate n c) = b"
proof -
  from assms have "rev b = [] \<or> hd (rev b) \<noteq> c" by (auto simp: hd_rev)
  then have "lstrip c (replicate n c @ rev b) = rev b" by (rule lstrip_replicate)
  then show ?thesis by (simp add: rstrip_def lstrip_def)
qed

subsection \<open>Dicts and the header comprehensions\<close>

lemma map_of_dict_set: "map_of (dict_set d k v) = (map_of d)(k \<mapsto> v)"
  by (induction d) (auto simp: fun_eq_iff)

lemma keys_dict_set: "set (map fst (dict_set d k v)) = insert k (set (map fst d))"
proof (induction d)
  case Nil
  show ?case by simp
next
  case (Cons a d)
  obtain k' v' where a: "a = (k', v')" by (cases a)
  show ?case
  proof (cases "k' = k")
    case True
    then show ?thesis by (simp add: a)
  next
    case False
    then show ?thesis using Cons.IH by (simp add: a insert_commute)
  qed
qed

lemma distinct_dict_set: "distinct (map fst d) \<Longrightarrow> distinct (map fst (dict_set d k v))"
  by (induction d) (auto simp: keys_dict_set simp del: set_map)

lemma dict_set_fresh: "k \<notin> set (map fst d) \<Longrightarrow> dict_set d k v = d @ [(k, v)]"
  by (induction d) auto

lemma foldl_headers_map_of:
  "map_of (foldl (header_step excluded) d items) k =
     (if lower k \<in> excluded then map_of d k
      else (case map_of (rev items) k of Some v \<Rightarrow> Some v | None \<Rightarrow> map_of d k))"
proof (induction items arbitrary: d)
  case Nil
  then show ?case by simp
next
  case (Cons a items)
  obtain key val where a: "a = (key, val)" by (cases a)
  show ?case
    by (simp add: a Cons.IH map_of_dict_set map_add_def split: option.splits)
qed

lemma foldl_headers_distinct:
  "distinct (map fst d) \<Longrightarrow> distinct (map fst (foldl (header_step excluded) d items))"
proof (induction items arbitrary: d)
  case Nil
  then show ?case by simp
next
  case (Cons a items)
  obtain key val where a: "a = (key, val)" by (cases a)
  from Cons.prems show ?case
    by (simp add: a Cons.IH distinct_dict_set)
qed

lemma foldl_headers_filter:
  "distinct (map fst (d @ items)) \<Longrightarrow>
   foldl (header_step excluded) d items = d @ filter (\<lambda>(key, val). lower key \<notin> excluded) items"
proof (induction items arbitrary: d)
  case Nil
  then show ?case by simp
next
  case (Cons a items)
  obtain key val where a: "a = (key, val)" by (cases a)
  from Cons.prems a have fresh: "key \<notin> set (map fst d)" by auto
  show ?case
  proof (cases "lower key \<in> excluded")
    case True
    from Cons.prems a have "distinct (map fst (d @ items))" by auto
    with True a Cons.IH show ?thesis by simp
  next
    case False
    from Cons.prems a have "distinct (map fst ((d @ [(key, val)]) @ items))" by auto
    then have "foldl (header_step excluded) (d @ [(key, val)]) items =
               (d @ [(key, val)]) @ filter (\<lambda>(key, val). lower key \<notin> excluded) items"
      by (rule Cons.IH)
    with False a fresh show ?thesis by (simp add: dict_set_fresh)
  qed
qed

lemma filter_headers_map_of:
  "map_of (filter_headers excluded items) k =
     (if lower k \<in> excluded then None else map_of (rev items) k)"
  by (simp add: filter_headers_def foldl_headers_map_of split: option.splits)

lemma filter_headers_distinct: "distinct (map fst (filter_headers excluded items))"
  by (simp add: filter_headers_def foldl_headers_distinct)

lemma filter_headers_filter:
  "distinct (map fst items) \<Longrightarrow>
   filter_headers excluded items = filter (\<lambda>(key, val). lower key \<notin> excluded) items"
  using foldl_headers_filter [of "[]" items excluded] by (simp add: filter_headers_def)

subsection \<open>The proxy with a Worker URL\<close>

lemma proxy_worker_except_requests:
  "filter is_client_request (fst (proxy_worker_except url evs e)) = filter is_client_request evs"
  by (simp add: proxy_worker_except_def)

lemma proxy_worker_configured:
  assumes "WORKER_URL cfg = Some u" "u \<noteq> []" "rq_body request = Inr body"
  shows "proxy_worker cfg client path request =
     (case client (outbound_request (target_url u path) request body) of
        Inl e \<Rightarrow> proxy_worker_except (target_url u path)
                   [Client_request (outbound_request (target_url u path) request body)] e
      | Inr resp \<Rightarrow>
          ([Client_request (outbound_request (target_url u path) request body)],
           Inr \<lparr>content = r_content resp, status_code = r_status_code resp,
                headers = response_headers (r_headers resp)\<rparr>))"
  using assms by (simp add: proxy_worker_def proxy_worker_try_def Let_def split: sum.splits)

lemma proxy_worker_client_requests:
  assumes "WORKER_URL cfg = Some u" "u \<noteq> []" "rq_body request = Inr body"
  shows "filter is_client_request (fst (proxy_worker cfg client path request)) =
           [Client_request (outbound_request (target_url u path) request body)]"
  by (simp add: proxy_worker_configured [OF assms] proxy_worker_except_requests split: sum.splits)

subsection \<open>The health probe, case by case\<close>

lemma health_check_configured:
  assumes "WORKER_URL cfg = Some u" and "u \<noteq> []"
  shows "health_check cfg client =
     (case health_check_try client u
             [(''status'', PStr ''ok''), (''worker_configured'', PBool True),
              (''worker_url'', PStr u)] of
        (evs, result', None) \<Rightarrow> (evs, Inr result')
      | (evs, result', Some e) \<Rightarrow>
          (evs @ [Log WARNING (health_failed_prefix @ str_exn e)],
           Inr (dict_set (dict_set result' ''worker_status'' (PStr ''error''))
                  ''worker_error'' (PStr (str_exn e)))))"
  using assms
  by (simp add: health_check_def isinstance_Exception split: prod.splits option.splits)

lemma health_check_raised:
  assumes "WORKER_URL cfg = Some u" and "u \<noteq> []" and "client (health_request u) = Inl e"
  shows "snd (health_check cfg client) =
     Inr [(''status'', PStr ''ok''), (''worker_configured'', PBool True),
          (''worker_url'', PStr u), (''worker_status'', PStr ''error''),
          (''worker_error'', PStr (str_exn e))]"
  using assms(3) by (simp add: health_check_configured [OF assms(1,2)] health_check_try_def)

lemma health_check_not_200:
  assumes "WORKER_URL cfg = Some u" and "u \<noteq> []" and "client (health_request u) = Inr resp"
    and "r_status_code resp \<noteq> 200"
  shows "snd (health_check cfg client) =
     Inr [(''status'', PStr ''ok''), (''worker_configured'', PBool True),
          (''worker_url'', PStr u), (''worker_status'', PStr ''error''),
          (''worker_error'', PStr (''HTTP '' @ str_int (r_status_code resp)))]"
  using assms(3,4) by (simp add: health_check_configured [OF assms(1,2)] health_check_try_def)

lemma health_check_200_undecodable:
  assumes "WORKER_URL cfg = Some u" and "u \<noteq> []" and "client (health_request u) = Inr resp"
    and "r_status_code resp = 200" and "r_json resp = Inl m"
  shows "snd (health_check cfg client) =
     Inr [(''status'', PStr ''ok''), (''worker_configured'', PBool True),
          (''worker_url'', PStr u), (''worker_status'', PStr ''error''),
          (''worker_error'', PStr m)]"
  using assms(3,4,5) by (simp add: health_check_configured [OF assms(1,2)] health_check_try_def)

lemma health_check_200_dict:
  assumes "WORKER_URL cfg = Some u" and "u \<noteq> []" and "client (health_request u) = Inr resp"
    and "r_status_code resp = 200" and "r_json resp = Inr (PDict d)"
  shows "snd (health_check cfg client) =
     Inr [(''status'', PStr ''ok''), (''worker_configured'', PBool True),
          (''worker_url'', PStr u), (''worker_status'', PStr ''healthy''),
          (''worker_initialized'',
             (case map_of d ''initialized'' of Some v \<Rightarrow> v | None \<Rightarrow> PBool False))]"
  using assms(3,4,5)
  by (simp add: health_check_configured [OF assms(1,2)] health_check_try_def dict_get_def)

lemma health_check_200_not_dict:
  assumes "WORKER_URL cfg = Some u" and "u \<noteq> []" and "client (health_request u) = Inr resp"
    and "r_status_code resp = 200" and "r_json resp = Inr v" and "\<forall>d. v \<noteq> PDict d"
  shows "snd (health_check cfg client) =
     Inr [(''status'', PStr ''ok''), (''worker_configured'', PBool True),
          (''worker_url'', PStr u), (''worker_status'', PStr ''error''),
          (''worker_error'', PStr (no_attribute v ''get''))]"
  using assms(3,4,5,6)
  by (cases v) (simp_all add: health_check_configured [OF assms(1,2)] health_check_try_def)

lemma health_check_not_configured:
  assumes "\<not> truthy (WORKER_URL cfg)"
  shows "health_check cfg client =
        ([], Inr [(''status'', PStr ''ok''), (''worker_configured'', PBool False),
                  (''worker_url'', PStr []), (''worker_status'', PStr ''not_configured'')])"
  using assms by (cases "WORKER_URL cfg") (simp_all add: health_check_def)

section \<open>The target URL\<close>

text \<open>
  C1, as stated, fails. The handler strips with \<^verbatim>\<open>rstrip('/')\<close> and \<^verbatim>\<open>lstrip('/')\<close>,
  which remove every trailing and every leading slash, not exactly one: for the base
  "http://w:9//" and the path "admin/keys" the handler's target is "http://w:9/admin/keys",
  while stripping exactly one slash gives "http://w:9//admin/keys".
\<close>

theorem C1_counterexample:
  "target_url ''http://w:9//'' ''admin/keys'' = ''http://w:9/admin/keys'' \<and>
   spec_target_url ''http://w:9//'' ''admin/keys'' = ''http://w:9//admin/keys''"
  by (simp add: target_url_def spec_target_url_def rstrip_def lstrip_def
      strip_one_trailing_def strip_one_leading_def)

text \<open>
  C1, amended. Write the base as \<open>b\<close> followed by \<open>n\<close> slashes, where \<open>b\<close> does not end
  in a slash, and the path as \<open>m\<close> slashes followed by \<open>p\<close>, where \<open>p\<close> does not start with
  one (every base and every path has this form). Then the target URL is \<open>b\<close>, one slash,
  \<open>p\<close>: all trailing slashes of the base and all leading slashes of the path are removed
  and exactly one slash stands at the join. When the base is not empty and the body can be
  read, that URL is the URL of the one call of the client.
\<close>

theorem C1_target_url:
  assumes "b = [] \<or> last b \<noteq> CHR ''/''" and "p = [] \<or> hd p \<noteq> CHR ''/''"
  shows "target_url (b @ replicate n CHR ''/'') (replicate m CHR ''/'' @ p) = b @ ''/'' @ p \<and>
         (b @ replicate n CHR ''/'' \<noteq> [] \<longrightarrow> rq_body request = Inr body \<longrightarrow>
            (\<exists>out. filter is_client_request
                      (fst (proxy_worker \<lparr>WORKER_URL = Some (b @ replicate n CHR ''/'')\<rparr> client
                              (replicate m CHR ''/'' @ p) request)) = [Client_request out] \<and>
                    o_url out = b @ ''/'' @ p))"
proof -
  have t: "target_url (b @ replicate n CHR ''/'') (replicate m CHR ''/'' @ p) = b @ ''/'' @ p"
    using assms by (simp add: target_url_def rstrip_replicate lstrip_replicate)
  have "filter is_client_request
          (fst (proxy_worker \<lparr>WORKER_URL = Some (b @ replicate n CHR ''/'')\<rparr> client
                  (replicate m CHR ''/'' @ p) request)) =
        [Client_request (outbound_request (b @ ''/'' @ p) request body)]"
    if "b @ replicate n CHR ''/'' \<noteq> []" "rq_body request = Inr body"
    using proxy_worker_client_requests [of "\<lparr>WORKER_URL = Some (b @ replicate n CHR ''/'')\<rparr>"
        "b @ replicate n CHR ''/''" request body client "replicate m CHR ''/'' @ p"] that t
    by simp
  moreover have "o_url (outbound_request (b @ ''/'' @ p) request body) = b @ ''/'' @ p"
    by (simp add: outbound_request_def)
  ultimately show ?thesis using t by blast
qed

text \<open>
  The theorem at the base "http://w:9" with two trailing slashes and the path "admin/keys"
  with three leading slashes.
\<close>

theorem C1_target_url_witness:
  "target_url ''http://w:9//'' ''///admin/keys'' = ''http://w:9/admin/keys'' \<and>
   (\<exists>out. filter is_client_request
             (fst (proxy_worker \<lparr>WORKER_URL = Some ''http://w:9//''\<rparr>
                     (\<lambda>rq. Inl (HTTPError ''refused'')) ''///admin/keys''
                     \<lparr>rq_method = ''GET'', rq_headers = [], rq_body = Inr [],
                      rq_query_params = []\<rparr>)) = [Client_request out] \<and>
           o_url out = ''http://w:9/admin/keys'')"
proof -
  have r: "replicate 2 CHR ''/'' = ''//''" "replicate 3 CHR ''/'' = ''///''"
    by (simp_all add: numeral_2_eq_2 numeral_3_eq_3)
  show ?thesis
    using C1_target_url [of "''http://w:9''" "''admin/keys''" 2 3
        "\<lparr>rq_method = ''GET'', rq_headers = [], rq_body = Inr [], rq_query_params = []\<rparr>" "[]"
        "\<lambda>rq. Inl (HTTPError ''refused'')"]
    unfolding r by simp
qed

section \<open>Request headers, body, method and query\<close>

text \<open>
  C7, as stated, fails on repeated names. The outbound headers are a dict, so of two
  inbound "cookie" headers only the last value is sent, while the inbound headers minus the
  four excluded names still hold both.
\<close>

theorem C7_counterexample:
  "o_headers (outbound_request ''http://w:9/admin/keys''
      \<lparr>rq_method = ''GET'', rq_headers = [(''cookie'', ''a=1''), (''cookie'', ''b=2'')],
       rq_body = Inr [], rq_query_params = []\<rparr> []) = [(''cookie'', ''b=2'')] \<and>
   spec_filter_headers {''host'', ''connection'', ''content-length'', ''accept-encoding''}
      [(''cookie'', ''a=1''), (''cookie'', ''b=2'')] =
      [(''cookie'', ''a=1''), (''cookie'', ''b=2'')]"
  by (simp add: outbound_request_def request_headers_def filter_headers_def request_excluded_def
      spec_filter_headers_def lower_def lower_char_def)

text \<open>
  C7, amended. When a Worker URL is configured and the body can be read, the one call of
  the client carries headers such that: a name is present exactly when it occurs inbound and
  its lower-cased form is none of host, connection, content-length, accept-encoding, and its
  value is then that of its last inbound occurrence; no name occurs twice; and when no
  inbound name repeats, the outbound headers are the inbound ones, in order, minus the
  entries with those four names.
\<close>

theorem C7_request_headers:
  assumes "WORKER_URL cfg = Some u" and "u \<noteq> []" and "rq_body request = Inr body"
  shows "\<exists>out. filter is_client_request (fst (proxy_worker cfg client path request)) =
                 [Client_request out] \<and>
           (\<forall>k. map_of (o_headers out) k =
               (if lower k \<in> {''host'', ''connection'', ''content-length'', ''accept-encoding''}
                then None else map_of (rev (rq_headers request)) k)) \<and>
           distinct (map fst (o_headers out)) \<and>
           (distinct (map fst (rq_headers request)) \<longrightarrow>
              o_headers out =
                filter (\<lambda>(key, val). lower key \<notin>
                          {''host'', ''connection'', ''content-length'', ''accept-encoding''})
                  (rq_headers request))"
proof -
  let ?out = "outbound_request (target_url u path) request body"
  have h: "o_headers ?out = filter_headers request_excluded (rq_headers request)"
    by (simp add: outbound_request_def request_headers_def)
  have "filter is_client_request (fst (proxy_worker cfg client path request)) =
          [Client_request ?out]"
    by (rule proxy_worker_client_requests [OF assms])
  moreover have "\<forall>k. map_of (o_headers ?out) k =
               (if lower k \<in> {''host'', ''connection'', ''content-length'', ''accept-encoding''}
                then None else map_of (rev (rq_headers request)) k)"
    unfolding h filter_headers_map_of by (simp add: request_excluded_def)
  moreover have "distinct (map fst (o_headers ?out))"
    unfolding h by (rule filter_headers_distinct)
  moreover have "o_headers ?out =
                filter (\<lambda>(key, val). lower key \<notin>
                          {''host'', ''connection'', ''content-length'', ''accept-encoding''})
                  (rq_headers request)"
    if "distinct (map fst (rq_headers request))"
    unfolding h using filter_headers_filter [OF that, of request_excluded]
    by (simp add: request_excluded_def)
  ultimately show ?thesis by blast
qed

text \<open>
  The theorem at the inbound headers Host: x, Connection: y, X-Custom: z, which leave only
  X-Custom: z.
\<close>

theorem C7_request_headers_witness:
  "\<exists>out. filter is_client_request
            (fst (proxy_worker \<lparr>WORKER_URL = Some ''http://w:9''\<rparr>
                    (\<lambda>rq. Inl (HTTPError ''refused'')) ''admin/keys''
                    \<lparr>rq_method = ''GET'',
                     rq_headers = [(''Host'', ''x''), (''Connection'', ''y''), (''X-Custom'', ''z'')],
                     rq_body = Inr [], rq_query_params = []\<rparr>)) = [Client_request out] \<and>
          o_headers out = [(''X-Custom'', ''z'')]"
proof -
  from C7_request_headers [of "\<lparr>WORKER_URL = Some ''http://w:9''\<rparr>" "''http://w:9''"
      "\<lparr>rq_method = ''GET'',
        rq_headers = [(''Host'', ''x''), (''Connection'', ''y''), (''X-Custom'', ''z'')],
        rq_body = Inr [], rq_query_params = []\<rparr>" "[]"
      "\<lambda>rq. Inl (HTTPError ''refused'')" "''admin/keys''"]
  show ?thesis by (auto simp: lower_def lower_char_def)
qed



section \<open>The Worker's reply\<close>






section \<open>Failures of the outbound request\<close>

text \<open>
  C5. When the call of the client raises: a timeout, although it is also an instance of
  \<^verbatim>\<open>HTTPError\<close>, is caught by the first clause and gives status 504; every other instance of
  \<^verbatim>\<open>HTTPError\<close> that is not a status error gives status 502.
\<close>

theorem C5_timeout_504_transport_502:
  assumes "WORKER_URL cfg = Some u" and "u \<noteq> []" and "rq_body request = Inr body"
    and "client (outbound_request (target_url u path) request body) = Inl e"
  shows "(isinstance e TimeoutException_cls \<longrightarrow>
            isinstance e HTTPError_cls \<and>
            snd (proxy_worker cfg client path request) =
              Inl (HTTPException 504 (timeout_prefix @ str_exn e))) \<and>
         (isinstance e HTTPError_cls \<and> \<not> isinstance e TimeoutException_cls \<and>
          \<not> isinstance e HTTPStatusError_cls \<longrightarrow>
            snd (proxy_worker cfg client path request) =
              Inl (HTTPException 502 (request_failed_prefix @ str_exn e)))"
  using assms(4)
  by (cases e) (simp_all add: proxy_worker_configured [OF assms(1-3)] proxy_worker_except_def)

text \<open>
  The theorem at a timeout and at a refused connection.
\<close>

theorem C5_timeout_504_transport_502_witness:
  "snd (proxy_worker \<lparr>WORKER_URL = Some ''http://w:9''\<rparr> (\<lambda>rq. Inl (TimeoutException []))
          ''admin/keys''
          \<lparr>rq_method = ''GET'', rq_headers = [], rq_body = Inr [], rq_query_params = []\<rparr>) =
     Inl (HTTPException 504 (timeout_prefix @ [])) \<and>
   snd (proxy_worker \<lparr>WORKER_URL = Some ''http://w:9''\<rparr> (\<lambda>rq. Inl (HTTPError ''refused''))
          ''admin/keys''
          \<lparr>rq_method = ''GET'', rq_headers = [], rq_body = Inr [], rq_query_params = []\<rparr>) =
     Inl (HTTPException 502 (request_failed_prefix @ ''refused''))"
  using C5_timeout_504_transport_502 [of "\<lparr>WORKER_URL = Some ''http://w:9''\<rparr>" "''http://w:9''"
      "\<lparr>rq_method = ''GET'', rq_headers = [], rq_body = Inr [], rq_query_params = []\<rparr>" "[]"
      "\<lambda>rq. Inl (TimeoutException [])" "''admin/keys''" "TimeoutException []"]
    C5_timeout_504_transport_502 [of "\<lparr>WORKER_URL = Some ''http://w:9''\<rparr>" "''http://w:9''"
      "\<lparr>rq_method = ''GET'', rq_headers = [], rq_body = Inr [], rq_query_params = []\<rparr>" "[]"
      "\<lambda>rq. Inl (HTTPError ''refused'')" "''admin/keys''" "HTTPError ''refused''"]
  by simp

section \<open>The proxy without a Worker URL\<close>

text \<open>
  C4. Whatever the inbound request is, when \<^verbatim>\<open>WORKER_URL\<close> is \<^verbatim>\<open>None\<close> or empty the
  proxy raises \<^verbatim>\<open>HTTPException\<close> with status 400, the detail is the handler's literal, which
  names the Worker URL and the \<^verbatim>\<open>WORKER_URL\<close> setting to configure, and the client is
  never called (the event list is empty).
\<close>

theorem C4_proxy_unconfigured:
  assumes "WORKER_URL cfg = None \<or> WORKER_URL cfg = Some []"
  shows "proxy_worker cfg client path request =
           ([], Inl (HTTPException 400 not_configured_detail)) \<and>
         (\<exists>mid. not_configured_detail = ''Worker URL '' @ mid @ '' WORKER_URL'')"
proof -
  from assms have "\<not> truthy (WORKER_URL cfg)" by auto
  then have "proxy_worker cfg client path request =
           ([], Inl (HTTPException 400 not_configured_detail))"
    by (simp add: proxy_worker_def)
  moreover have "\<exists>mid. not_configured_detail = ''Worker URL '' @ mid @ '' WORKER_URL''"
    unfolding not_configured_detail_def by blast
  ultimately show ?thesis by blast
qed

theorem C4_proxy_unconfigured_witness:
  "(WORKER_URL \<lparr>WORKER_URL = Some []\<rparr> = None \<or> WORKER_URL \<lparr>WORKER_URL = Some []\<rparr> = Some []) \<and>
   proxy_worker \<lparr>WORKER_URL = Some []\<rparr> (\<lambda>rq. Inl (HTTPError ''refused'')) ''admin/keys''
     \<lparr>rq_method = ''POST'', rq_headers = [(''host'', ''x'')], rq_body = Inr ''{}'',
      rq_query_params = [(''a'', ''1'')]\<rparr> =
   ([], Inl (HTTPException 400 not_configured_detail))"
  using C4_proxy_unconfigured [of "\<lparr>WORKER_URL = Some []\<rparr>" "\<lambda>rq. Inl (HTTPError ''refused'')"
      "''admin/keys''" "\<lparr>rq_method = ''POST'', rq_headers = [(''host'', ''x'')], rq_body = Inr ''{}'',
      rq_query_params = [(''a'', ''1'')]\<rparr>"]
  by simp

section \<open>The health report\<close>

text \<open>
  C9. When \<^verbatim>\<open>WORKER_URL\<close> is \<^verbatim>\<open>None\<close> or empty, the report is exactly status "ok",
  worker\_configured false, worker\_url "" and worker\_status "not\_configured", and the
  client is never called; and for every configuration and every behaviour of the client
  (reply or exception) the handler returns a report and does not raise.
\<close>

theorem C9_health_unconfigured:
  "(WORKER_URL cfg = None \<or> WORKER_URL cfg = Some [] \<longrightarrow>
      health_check cfg client =
        ([], Inr [(''status'', PStr ''ok''), (''worker_configured'', PBool False),
                  (''worker_url'', PStr []), (''worker_status'', PStr ''not_configured'')])) \<and>
   (\<exists>report. snd (health_check cfg client) = Inr report)"
proof -
  have "health_check cfg client =
        ([], Inr [(''status'', PStr ''ok''), (''worker_configured'', PBool False),
                  (''worker_url'', PStr []), (''worker_status'', PStr ''not_configured'')])"
    if "WORKER_URL cfg = None \<or> WORKER_URL cfg = Some []"
    using that by (auto simp: health_check_def)
  with health_check_returns show ?thesis by blast
qed

text \<open>
  The theorem without a URL, and with a URL and a Worker that times out.
\<close>

theorem C9_health_unconfigured_witness:
  "health_check \<lparr>WORKER_URL = None\<rparr> (\<lambda>rq. Inl (TimeoutException [])) =
     ([], Inr [(''status'', PStr ''ok''), (''worker_configured'', PBool False),
               (''worker_url'', PStr []), (''worker_status'', PStr ''not_configured'')]) \<and>
   (\<exists>report. snd (health_check \<lparr>WORKER_URL = Some ''http://w:9''\<rparr>
                     (\<lambda>rq. Inl (TimeoutException []))) = Inr report)"
  using C9_health_unconfigured [of "\<lparr>WORKER_URL = None\<rparr>" "\<lambda>rq. Inl (TimeoutException [])"]
    C9_health_unconfigured [of "\<lparr>WORKER_URL = Some ''http://w:9''\<rparr>" "\<lambda>rq. Inl (TimeoutException [])"]
  by simp

text \<open>
  C3, as stated, fails. When the Worker answers 200 with a body that is not JSON,
  \<^verbatim>\<open>response.json()\<close> raises inside the \<^verbatim>\<open>try\<close> block before worker\_status is set, and the
  handler reports worker\_status "error" with the decoding error as worker\_error.
\<close>

theorem C3_counterexample:
  "snd (health_check \<lparr>WORKER_URL = Some ''http://w:9''\<rparr>
          (\<lambda>rq. Inr \<lparr>r_status_code = 200, r_headers = [], r_content = ''<h1>up</h1>'',
                      r_json = Inl ''Expecting value: line 1 column 1 (char 0)''\<rparr>)) =
     Inr [(''status'', PStr ''ok''), (''worker_configured'', PBool True),
          (''worker_url'', PStr ''http://w:9''), (''worker_status'', PStr ''error''),
          (''worker_error'', PStr ''Expecting value: line 1 column 1 (char 0)'')]"
  by (simp add: health_check_def health_check_try_def)

text \<open>
  C3, amended. When the Worker answers 200: if the body decodes to a JSON object, the
  report has worker\_status "healthy" and worker\_initialized equal to the object's
  \<^verbatim>\<open>initialized\<close> field, or false when the object has none; if the body cannot be decoded,
  or decodes to something that is not an object, the report is still returned, with
  worker\_status "error", worker\_error the text of the exception, and no
  worker\_initialized.
\<close>

theorem C3_health_200:
  assumes "WORKER_URL cfg = Some u" and "u \<noteq> []" and "client (health_request u) = Inr resp"
    and "r_status_code resp = 200"
  shows "(\<forall>d. r_json resp = Inr (PDict d) \<longrightarrow>
            snd (health_check cfg client) =
              Inr [(''status'', PStr ''ok''), (''worker_configured'', PBool True),
                   (''worker_url'', PStr u), (''worker_status'', PStr ''healthy''),
                   (''worker_initialized'',
                      (case map_of d ''initialized'' of Some v \<Rightarrow> v | None \<Rightarrow> PBool False))]) \<and>
         (\<forall>m. r_json resp = Inl m \<longrightarrow>
            snd (health_check cfg client) =
              Inr [(''status'', PStr ''ok''), (''worker_configured'', PBool True),
                   (''worker_url'', PStr u), (''worker_status'', PStr ''error''),
                   (''worker_error'', PStr m)]) \<and>
         (\<forall>v. r_json resp = Inr v \<longrightarrow> (\<forall>d. v \<noteq> PDict d) \<longrightarrow>
            snd (health_check cfg client) =
              Inr [(''status'', PStr ''ok''), (''worker_configured'', PBool True),
                   (''worker_url'', PStr u), (''worker_status'', PStr ''error''),
                   (''worker_error'', PStr (no_attribute v ''get''))])"
  using assms health_check_200_dict [of cfg u client resp]
    health_check_200_undecodable [of cfg u client resp]
    health_check_200_not_dict [of cfg u client resp]
  by blast

text \<open>
  The theorem at the bodies \<^verbatim>\<open>{"initialized": true}\<close>, \<^verbatim>\<open>{}\<close>, an undecodable body and
  \<^verbatim>\<open>[]\<close>.
\<close>

theorem C3_health_200_witness:
  "snd (health_check \<lparr>WORKER_URL = Some ''http://w:9''\<rparr>
          (\<lambda>rq. Inr \<lparr>r_status_code = 200, r_headers = [], r_content = [],
                      r_json = Inr (PDict [(''initialized'', PBool True)])\<rparr>)) =
     Inr [(''status'', PStr ''ok''), (''worker_configured'', PBool True),
          (''worker_url'', PStr ''http://w:9''), (''worker_status'', PStr ''healthy''),
          (''worker_initialized'', PBool True)] \<and>
   snd (health_check \<lparr>WORKER_URL = Some ''http://w:9''\<rparr>
          (\<lambda>rq. Inr \<lparr>r_status_code = 200, r_headers = [], r_content = [],
                      r_json = Inr (PDict [])\<rparr>)) =
     Inr [(''status'', PStr ''ok''), (''worker_configured'', PBool True),
          (''worker_url'', PStr ''http://w:9''), (''worker_status'', PStr ''healthy''),
          (''worker_initialized'', PBool False)] \<and>
   snd (health_check \<lparr>WORKER_URL = Some ''http://w:9''\<rparr>
          (\<lambda>rq. Inr \<lparr>r_status_code = 200, r_headers = [], r_content = [],
                      r_json = Inl ''Expecting value''\<rparr>)) =
     Inr [(''status'', PStr ''ok''), (''worker_configured'', PBool True),
          (''worker_url'', PStr ''http://w:9''), (''worker_status'', PStr ''error''),
          (''worker_error'', PStr ''Expecting value'')] \<and>
   snd (health_check \<lparr>WORKER_URL = Some ''http://w:9''\<rparr>
          (\<lambda>rq. Inr \<lparr>r_status_code = 200, r_headers = [], r_content = [],
                      r_json = Inr (PList [])\<rparr>)) =
     Inr [(''status'', PStr ''ok''), (''worker_configured'', PBool True),
          (''worker_url'', PStr ''http://w:9''), (''worker_status'', PStr ''error''),
          (''worker_error'', PStr (no_attribute (PList []) ''get''))]"
  using C3_health_200 [of "\<lparr>WORKER_URL = Some ''http://w:9''\<rparr>" "''http://w:9''"
      "\<lambda>rq. Inr \<lparr>r_status_code = 200, r_headers = [], r_content = [],
                      r_json = Inr (PDict [(''initialized'', PBool True)])\<rparr>"
      "\<lparr>r_status_code = 200, r_headers = [], r_content = [],
                      r_json = Inr (PDict [(''initialized'', PBool True)])\<rparr>"]
    C3_health_200 [of "\<lparr>WORKER_URL = Some ''http://w:9''\<rparr>" "''http://w:9''"
      "\<lambda>rq. Inr \<lparr>r_status_code = 200, r_headers = [], r_content = [],
                      r_json = Inr (PDict [])\<rparr>"
      "\<lparr>r_status_code = 200, r_headers = [], r_content = [], r_json = Inr (PDict [])\<rparr>"]
    C3_health_200 [of "\<lparr>WORKER_URL = Some ''http://w:9''\<rparr>" "''http://w:9''"
      "\<lambda>rq. Inr \<lparr>r_status_code = 200, r_headers = [], r_content = [],
                      r_json = Inl ''Expecting value''\<rparr>"
      "\<lparr>r_status_code = 200, r_headers = [], r_content = [],
        r_json = Inl ''Expecting value''\<rparr>"]
    C3_health_200 [of "\<lparr>WORKER_URL = Some ''http://w:9''\<rparr>" "''http://w:9''"
      "\<lambda>rq. Inr \<lparr>r_status_code = 200, r_headers = [], r_content = [],
                      r_json = Inr (PList [])\<rparr>"
      "\<lparr>r_status_code = 200, r_headers = [], r_content = [], r_json = Inr (PList [])\<rparr>"]
  by simp

text \<open>
  C10, as stated, fails in one point: worker\_error can be empty. It is \<^verbatim>\<open>str(e)\<close> of
  the exception caught, and an exception without a message, such as a timeout raised
  without text, gives the empty string.
\<close>

theorem C10_counterexample:
  "snd (health_check \<lparr>WORKER_URL = Some ''http://w:9''\<rparr> (\<lambda>rq. Inl (TimeoutException []))) =
     Inr [(''status'', PStr ''ok''), (''worker_configured'', PBool True),
          (''worker_url'', PStr ''http://w:9''), (''worker_status'', PStr ''error''),
          (''worker_error'', PStr [])]"
  by (simp add: health_check_def health_check_try_def)

text \<open>
  C10, amended. Every call returns a report whose worker\_status is one of "healthy",
  "error", "not\_configured"; it contains worker\_initialized exactly when worker\_status
  is "healthy", worker\_error exactly when it is "error", and neither when it is
  "not\_configured". worker\_error is "HTTP " followed by the status code when the Worker
  answered with a code other than 200, and the text of the exception, which may be empty,
  when the call of the client raised.
\<close>

theorem C10_report_fields:
  "\<exists>report. snd (health_check cfg client) = Inr report \<and>
     (\<exists>s. map_of report ''worker_status'' = Some (PStr s) \<and>
          (s = ''healthy'' \<or> s = ''error'' \<or> s = ''not_configured'')) \<and>
     (''worker_initialized'' \<in> set (map fst report) \<longleftrightarrow>
        map_of report ''worker_status'' = Some (PStr ''healthy'')) \<and>
     (''worker_error'' \<in> set (map fst report) \<longleftrightarrow>
        map_of report ''worker_status'' = Some (PStr ''error'')) \<and>
     (map_of report ''worker_status'' = Some (PStr ''not_configured'') \<longrightarrow>
        ''worker_initialized'' \<notin> set (map fst report) \<and>
        ''worker_error'' \<notin> set (map fst report)) \<and>
     (\<forall>resp. truthy (WORKER_URL cfg) \<and>
             client (health_request (the (WORKER_URL cfg))) = Inr resp \<and>
             r_status_code resp \<noteq> 200 \<longrightarrow>
        map_of report ''worker_error'' =
          Some (PStr (''HTTP '' @ str_int (r_status_code resp)))) \<and>
     (\<forall>e. truthy (WORKER_URL cfg) \<and>
           client (health_request (the (WORKER_URL cfg))) = Inl e \<longrightarrow>
        map_of report ''worker_error'' = Some (PStr (str_exn e)))"
proof (cases "truthy (WORKER_URL cfg)")
  case False
  then show ?thesis by (simp add: health_check_not_configured)
next
  case True
  then obtain u where u: "WORKER_URL cfg = Some u" "u \<noteq> []"
    by (cases "WORKER_URL cfg") auto
  show ?thesis
  proof (cases "client (health_request u)")
    case (Inl e)
    then show ?thesis using u by (simp add: health_check_raised [of cfg u client e])
  next
    case (Inr resp)
    show ?thesis
    proof (cases "r_status_code resp = 200")
      case False
      then show ?thesis using u Inr by (simp add: health_check_not_200 [of cfg u client resp])
    next
      case c200: True
      show ?thesis
      proof (cases "r_json resp")
        case (Inl m)
        then show ?thesis using u Inr c200
          by (simp add: health_check_200_undecodable [of cfg u client resp m])
      next
        case j: (Inr v)
        show ?thesis
        proof (cases "\<exists>d. v = PDict d")
          case True
          then obtain d where "v = PDict d" by blast
          with j have jd: "r_json resp = Inr (PDict d)" by simp
          show ?thesis using u Inr c200
            by (simp add: jd health_check_200_dict [of cfg u client resp d])
        next
          case False
          then have nd: "\<forall>d. v \<noteq> PDict d" by blast
          show ?thesis using u Inr c200 j nd
            by (simp add: health_check_200_not_dict [of cfg u client resp v])
        qed
      qed
    qed
  qed
qed

text \<open>
  The theorem at a Worker that answers 503.
\<close>

theorem C10_report_fields_witness:
  "\<exists>report. snd (health_check \<lparr>WORKER_URL = Some ''http://w:9''\<rparr>
                    (\<lambda>rq. Inr \<lparr>r_status_code = 503, r_headers = [], r_content = ''busy'',
                                r_json = Inl []\<rparr>)) = Inr report \<and>
     map_of report ''worker_status'' = Some (PStr ''error'') \<and>
     ''worker_error'' \<in> set (map fst report) \<and>
     ''worker_initialized'' \<notin> set (map fst report) \<and>
     map_of report ''worker_error'' = Some (PStr ''HTTP 503'')"
proof -
  from C10_report_fields [of "\<lparr>WORKER_URL = Some ''http://w:9''\<rparr>"
      "\<lambda>rq. Inr \<lparr>r_status_code = 503, r_headers = [], r_content = ''busy'', r_json = Inl []\<rparr>"]
  obtain report where r: "snd (health_check \<lparr>WORKER_URL = Some ''http://w:9''\<rparr>
                    (\<lambda>rq. Inr \<lparr>r_status_code = 503, r_headers = [], r_content = ''busy'',
                                r_json = Inl []\<rparr>)) = Inr report"
    and i: "''worker_initialized'' \<in> set (map fst report) \<longleftrightarrow>
        map_of report ''worker_status'' = Some (PStr ''healthy'')"
    and e: "''worker_error'' \<in> set (map fst report) \<longleftrightarrow>
        map_of report ''worker_status'' = Some (PStr ''error'')"
    and h: "map_of report ''worker_error'' = Some (PStr (''HTTP '' @ str_int 503))"
    by auto
  have "str_int 503 = ''503''"
    by (simp add: str_int_def str_nat.simps)
  with h have h': "map_of report ''worker_error'' = Some (PStr ''HTTP 503'')" by simp
  then have "''worker_error'' \<in> set (map fst report)"
    by (metis map_of_eq_None_iff option.distinct(1) set_map)
  with e i r h' show ?thesis by auto
qed

end
